theory Spec2Isabelle
  imports Complex_Main "HOL-Library.Multiset"
begin

section \<open>JavaScript values and helpers\<close>

text \<open>
  JavaScript numbers are modelled as exact rationals: NaN, the infinities and the rounding
  of IEEE doubles are outside the model. A request field or a document field that may be
  absent (\<open>undefined\<close> or \<open>null\<close>) is an \<open>option\<close>.
\<close>

type_synonym num = rat

text \<open>The values a \<open>Mixed\<close> field of a document holds.\<close>

datatype jsvalue = JBool bool | JNum num | JStr string | JNull

text \<open>
  \<open>String.prototype.trim\<close> on the ASCII white space characters (tab, line feed,
  vertical tab, form feed, carriage return, space).
\<close>

definition is_ws :: "char \<Rightarrow> bool" where
  "is_ws c = (c \<in> set [CHR 0x09, CHR 0x0A, CHR 0x0B, CHR 0x0C, CHR 0x0D, CHR 0x20])"

definition trim :: "string \<Rightarrow> string" where
  "trim s = rev (dropWhile is_ws (rev (dropWhile is_ws s)))"

text \<open>\<open>x !== undefined\<close>\<close>

definition present :: "'a option \<Rightarrow> bool" where
  "present x = (x \<noteq> None)"

text \<open>Truthiness of a number (\<open>0\<close> is falsy) and of a string (\<open>""\<close> is falsy).\<close>

definition truthy_num :: "num option \<Rightarrow> bool" where
  "truthy_num x = (case x of None \<Rightarrow> False | Some v \<Rightarrow> v \<noteq> 0)"

definition truthy_str :: "string option \<Rightarrow> bool" where
  "truthy_str x = (case x of None \<Rightarrow> False | Some s \<Rightarrow> s \<noteq> [])"

section \<open>Settings (settings.model.js, settings controller)\<close>

text \<open>
  A document of the \<open>Settings\<close> collection. The schema trims \<open>key\<close> and
  \<open>description\<close>; the object-document mapper applies the schema's setters to the
  fields of a filter and of an update alike, so both operations below see the trimmed key.
  The collection is the list of its documents in natural order.
\<close>

record setting =
  key :: string
  setting_value :: jsvalue
  description :: string

type_synonym settings = "setting list"

text \<open>\<open>findOne({ key })\<close>: the first document with that key, if any.\<close>

definition findOne :: "settings \<Rightarrow> string \<Rightarrow> setting option" where
  "findOne docs k = find (\<lambda>d. key d = trim k) docs"

text \<open>
  \<open>findOneAndUpdate({ key }, { key, value, description }, { upsert: true, new: true })\<close>:
  the first document with that key gets the three fields; without one, a new document is
  inserted. The result is the collection and the written document.
\<close>

fun updateFirst :: "settings \<Rightarrow> string \<Rightarrow> setting \<Rightarrow> settings" where
  "updateFirst [] k new = []"
| "updateFirst (d # ds) k new = (if key d = k then new # ds else d # updateFirst ds k new)"

definition findOneAndUpdate_upsert ::
  "settings \<Rightarrow> string \<Rightarrow> jsvalue \<Rightarrow> string \<Rightarrow> settings \<times> setting" where
  "findOneAndUpdate_upsert docs k v descr =
     (let new = \<lparr>key = trim k, setting_value = v, description = trim descr\<rparr>
      in case findOne docs k of
           None \<Rightarrow> (docs @ [new], new)
         | Some _ \<Rightarrow> (updateFirst docs (trim k) new, new))"

definition getSetting :: "settings \<Rightarrow> string \<Rightarrow> jsvalue \<Rightarrow> jsvalue" where
  "getSetting docs k defaultValue =
     (case findOne docs k of None \<Rightarrow> defaultValue | Some s \<Rightarrow> setting_value s)"

definition setSetting :: "settings \<Rightarrow> string \<Rightarrow> jsvalue \<Rightarrow> string \<Rightarrow> settings \<times> setting" where
  "setSetting docs k v descr = findOneAndUpdate_upsert docs k v descr"

text \<open>The response of the bank-details-visibility read: \<open>ApiResponse(200, { showBankDetails }, message)\<close>.\<close>

record visibility_response =
  statusCode :: nat
  showBankDetails :: jsvalue
  message :: string

definition getBankDetailsVisibility :: "settings \<Rightarrow> visibility_response" where
  "getBankDetailsVisibility docs =
     (let shown = getSetting docs ''showBankDetails'' (JBool True)
      in \<lparr>statusCode = 200, showBankDetails = shown,
          message = ''Bank details visibility setting retrieved successfully''\<rparr>)"

section \<open>Ledger documents\<close>

datatype txn_type = DEPOSIT | WITHDRAWAL

datatype txn_status = PENDING | COMPLETED | CANCELLED | FAILED

record transaction =
  txn_userId :: string
  txn_type :: txn_type
  amount :: num
  txn_status :: txn_status

datatype order_status = OPEN | CLOSED

record price_range =
  low :: "num option"
  high :: "num option"
  mid :: num

text \<open>
  An order document (model \<open>OrderHistory\<close>). \<open>order_type\<close> is the document's \<open>type\<close> field, kept as the
  string the handlers store and compare.
\<close>

record orderhistory =
  order_id :: string
  userId :: string
  symbol :: string
  order_type :: string
  quantity :: num
  buyPrice :: num
  sellPrice :: "num option"
  tradeAmount :: "num option"
  priceRange :: "price_range option"
  currentPrice :: "num option"
  profitLoss :: "num option"
  order_status :: order_status

section \<open>Balance reads\<close>

text \<open>
  An aggregation pipeline \<open>[{ $match }, { $group: { _id: null, total: { $sum } } }]\<close>:
  no group at all when no document matches, else the one group's total.
\<close>

definition aggregate_total :: "'a list \<Rightarrow> ('a \<Rightarrow> bool) \<Rightarrow> ('a \<Rightarrow> num) \<Rightarrow> num option" where
  "aggregate_total docs match field =
     (let ms = filter match docs in if ms = [] then None else Some (sum_list (map field ms)))"

text \<open>\<open>agg[0]?.total || 0\<close>\<close>

definition total_or_zero :: "num option \<Rightarrow> num" where
  "total_or_zero t = (case t of None \<Rightarrow> 0 | Some v \<Rightarrow> if v \<noteq> 0 then v else 0)"

text \<open>\<open>{ $ifNull: [field, 0] }\<close>; \<open>$sum\<close> itself also counts a missing field as 0.\<close>

definition ifNull0 :: "num option \<Rightarrow> num" where
  "ifNull0 x = (case x of None \<Rightarrow> 0 | Some v \<Rightarrow> v)"

text \<open>The five figures both balance reads report.\<close>

record balance_info =
  accountBalance :: num
  totalDeposit :: num
  totalWithdrawals :: num
  orderInvestment :: num
  realizedProfitLoss :: num

text \<open>The dashboard read of the logged-in user \<open>uid\<close> (\<open>getUserDashboardData\<close>).\<close>

definition getUserDashboardData :: "transaction list \<Rightarrow> orderhistory list \<Rightarrow> string \<Rightarrow> balance_info" where
  "getUserDashboardData txns orders uid =
     (let deposit = total_or_zero (aggregate_total txns
            (\<lambda>t. txn_userId t = uid \<and> txn_type t = DEPOSIT \<and> txn_status t = COMPLETED) amount);
          withdrawals = total_or_zero (aggregate_total txns
            (\<lambda>t. txn_userId t = uid \<and> txn_type t = WITHDRAWAL \<and> txn_status t = COMPLETED) amount);
          baseBalance = deposit - withdrawals;
          investment = total_or_zero (aggregate_total orders
            (\<lambda>ord. userId ord = uid \<and> order_status ord = OPEN) (\<lambda>ord. ifNull0 (tradeAmount ord)));
          pnl = total_or_zero (aggregate_total orders
            (\<lambda>ord. userId ord = uid \<and> order_status ord = CLOSED) (\<lambda>ord. ifNull0 (profitLoss ord)))
      in \<lparr>accountBalance = baseBalance - investment + pnl,
          totalDeposit = deposit,
          totalWithdrawals = withdrawals,
          orderInvestment = investment,
          realizedProfitLoss = pnl\<rparr>)"

text \<open>
  The balance block of the admin per-user view (\<open>getUserbyId\<close>): one pipeline over all
  the user's transactions with conditional sums, one over all the user's orders.
\<close>

definition getUserbyId_balanceInfo :: "transaction list \<Rightarrow> orderhistory list \<Rightarrow> string \<Rightarrow> balance_info" where
  "getUserbyId_balanceInfo txns orders uid =
     (let balanceInfo = \<lparr>accountBalance = 0, totalDeposit = 0, totalWithdrawals = 0,
                          orderInvestment = 0, realizedProfitLoss = 0\<rparr>;
          mine = filter (\<lambda>t. txn_userId t = uid) txns;
          totalDeposits = sum_list (map (\<lambda>t. if txn_type t = DEPOSIT \<and> txn_status t = COMPLETED
                                               then amount t else 0) mine);
          totalWithdrawals' = sum_list (map (\<lambda>t. if txn_type t = WITHDRAWAL \<and> txn_status t = COMPLETED
                                               then amount t else 0) mine);
          balanceInfo = (if mine \<noteq> []
            then balanceInfo\<lparr>totalDeposit := total_or_zero (Some totalDeposits),
                             totalWithdrawals := total_or_zero (Some totalWithdrawals'),
                             accountBalance := total_or_zero (Some totalDeposits)
                                               - total_or_zero (Some totalWithdrawals')\<rparr>
            else balanceInfo);
          myOrders = filter (\<lambda>ord. userId ord = uid) orders;
          totalInvestment = sum_list (map (\<lambda>ord. ifNull0 (tradeAmount ord)) myOrders);
          totalProfitLoss = sum_list (map (\<lambda>ord. ifNull0 (profitLoss ord)) myOrders)
      in (if myOrders \<noteq> []
          then balanceInfo\<lparr>orderInvestment := total_or_zero (Some totalInvestment),
                           realizedProfitLoss := total_or_zero (Some totalProfitLoss)\<rparr>
          else balanceInfo))"

section \<open>Example ledger\<close>

definition dep1000 :: transaction where
  "dep1000 = \<lparr>txn_userId = ''u1'', txn_type = DEPOSIT, amount = 1000, txn_status = COMPLETED\<rparr>"

definition wd200_pending :: transaction where
  "wd200_pending = \<lparr>txn_userId = ''u1'', txn_type = WITHDRAWAL, amount = 200, txn_status = PENDING\<rparr>"

definition order500 :: orderhistory where
  "order500 = \<lparr>order_id = ''o1'', userId = ''u1'', symbol = ''EURUSD'', order_type = ''LONG'',
     quantity = 100, buyPrice = 5, sellPrice = None, tradeAmount = Some 500, priceRange = None,
     currentPrice = None, profitLoss = None, order_status = OPEN\<rparr>"

section \<open>Trades (createTrade, updateTrade)\<close>

text \<open>\<open>String.prototype.toUpperCase\<close> on the ASCII letters.\<close>

definition upper_char :: "char \<Rightarrow> char" where
  "upper_char c =
     (case map_of (zip ''abcdefghijklmnopqrstuvwxyz'' ''ABCDEFGHIJKLMNOPQRSTUVWXYZ'') c of
        None \<Rightarrow> c | Some u \<Rightarrow> u)"

definition toUpperCase :: "string \<Rightarrow> string" where
  "toUpperCase s = map upper_char s"

text \<open>\<open>x || null\<close> on a number that may be absent.\<close>

definition or_null :: "num option \<Rightarrow> num option" where
  "or_null x = (if truthy_num x then x else None)"

text \<open>The body of a create request; a numeric field holds a number (\<open>parseFloat\<close> leaves it as it is).\<close>

record trade_request =
  req_userId :: "string option"
  req_symbol :: "string option"
  req_tradeType :: "string option"
  req_quantity :: "num option"
  req_buyPrice :: "num option"
  req_priceRangeLow :: "num option"
  req_priceRangeHigh :: "num option"

text \<open>The body of an update request (\<open>updateData\<close>): the document's fields and the two range bounds.\<close>

record trade_update =
  u_symbol :: "string option"
  u_type :: "string option"
  u_quantity :: "num option"
  u_buyPrice :: "num option"
  u_sellPrice :: "num option"
  u_status :: "order_status option"
  u_priceRangeLow :: "num option"
  u_priceRangeHigh :: "num option"
  u_priceRange :: "price_range option"
  u_currentPrice :: "num option"
  u_tradeAmount :: "num option"
  u_profitLoss :: "num option"

datatype trade_response = TradeOk nat orderhistory | TradeError nat string

definition findById :: "orderhistory list \<Rightarrow> string \<Rightarrow> orderhistory option" where
  "findById orders tradeId = find (\<lambda>ord. order_id ord = tradeId) orders"

text \<open>
  \<open>createTrade\<close>. The schema of the model is not part of the sources: its validation on
  \<open>save\<close> is the parameter \<open>validate\<close>, the identifier the store gives the new
  document is \<open>newId\<close>. A failed \<open>save\<close> throws and is answered with 500.
\<close>

definition createTrade ::
  "(orderhistory \<Rightarrow> bool) \<Rightarrow> string \<Rightarrow> orderhistory list \<Rightarrow> trade_request
     \<Rightarrow> orderhistory list \<times> trade_response" where
  "createTrade validate newId orders body =
     (if \<not> truthy_str (req_userId body) \<or> \<not> truthy_str (req_symbol body)
         \<or> \<not> truthy_str (req_tradeType body) \<or> \<not> truthy_num (req_quantity body)
         \<or> \<not> truthy_num (req_buyPrice body)
      then (orders, TradeError 400 ''All fields are required'')
      else
        (case (req_userId body, req_symbol body, req_tradeType body, req_quantity body, req_buyPrice body) of
           (Some uid, Some sy, Some tradeType, Some qty, Some buy) \<Rightarrow>
             (let tradeAmount' = qty * buy;
                  buyPriceNum = buy;
                  priceRange' = \<lparr>low = or_null (req_priceRangeLow body),
                                 high = or_null (req_priceRangeHigh body),
                                 mid = buyPriceNum\<rparr>;
                  currentPrice' = (if low priceRange' \<noteq> None \<and> high priceRange' \<noteq> None
                                   then Some buyPriceNum else None);
                  newTrade = \<lparr>order_id = newId, userId = uid, symbol = sy,
                              order_type = toUpperCase tradeType, quantity = qty,
                              buyPrice = buyPriceNum, sellPrice = None,
                              tradeAmount = Some tradeAmount', priceRange = Some priceRange',
                              currentPrice = currentPrice', profitLoss = None,
                              order_status = OPEN\<rparr>
              in if validate newTrade
                 then (orders @ [newTrade], TradeOk 201 newTrade)
                 else (orders, TradeError 500 ''validation failed''))
         | _ \<Rightarrow> (orders, TradeError 400 ''All fields are required'')))"

text \<open>The price range block of \<open>updateTrade\<close>, run when a range bound is supplied.\<close>

definition price_range_step :: "orderhistory \<Rightarrow> trade_update \<Rightarrow> trade_update" where
  "price_range_step existingTrade updateData =
     (let buy = (case u_buyPrice updateData of
                   Some b \<Rightarrow> if b \<noteq> 0 then b else buyPrice existingTrade
                 | None \<Rightarrow> buyPrice existingTrade);
          lo = (case u_priceRangeLow updateData of
                  Some v \<Rightarrow> Some v
                | None \<Rightarrow> (case priceRange existingTrade of
                             None \<Rightarrow> None | Some r \<Rightarrow> or_null (low r)));
          hi = (case u_priceRangeHigh updateData of
                  Some v \<Rightarrow> Some v
                | None \<Rightarrow> (case priceRange existingTrade of
                             None \<Rightarrow> None | Some r \<Rightarrow> or_null (high r)));
          ud1 = updateData\<lparr>u_priceRange := Some \<lparr>low = lo, high = hi, mid = buy\<rparr>\<rparr>;
          ud2 = (if lo \<noteq> None \<and> hi \<noteq> None
                    \<and> (u_status updateData = Some OPEN \<or> order_status existingTrade = OPEN)
                 then ud1\<lparr>u_currentPrice := Some buy\<rparr> else ud1)
      in ud2\<lparr>u_priceRangeLow := None, u_priceRangeHigh := None\<rparr>)"

text \<open>\<open>// Calculate profit/loss if sellPrice is provided\<close>\<close>

definition profit_loss_step :: "trade_update \<Rightarrow> trade_update" where
  "profit_loss_step updateData =
     (case (u_sellPrice updateData, u_buyPrice updateData, u_quantity updateData) of
        (Some sell, Some buy, Some qty) \<Rightarrow>
          if sell \<noteq> 0 \<and> buy \<noteq> 0 \<and> qty \<noteq> 0
          then (let buyTotal = buy * qty; sellTotal = sell * qty
                in updateData\<lparr>u_profitLoss :=
                     Some (if map_option toUpperCase (u_type updateData) = Some ''LONG''
                           then sellTotal - buyTotal else buyTotal - sellTotal)\<rparr>)
          else updateData
      | _ \<Rightarrow> updateData)"

text \<open>\<open>// Update tradeAmount if quantity or buyPrice changed\<close>\<close>

definition trade_amount_step :: "trade_update \<Rightarrow> trade_update" where
  "trade_amount_step updateData =
     (case (u_quantity updateData, u_buyPrice updateData) of
        (Some qty, Some buy) \<Rightarrow>
          if qty \<noteq> 0 \<and> buy \<noteq> 0 then updateData\<lparr>u_tradeAmount := Some (qty * buy)\<rparr>
          else updateData
      | _ \<Rightarrow> updateData)"

text \<open>The fields an update sets on a document: each field the update holds, none else.\<close>

definition apply_update :: "trade_update \<Rightarrow> orderhistory \<Rightarrow> orderhistory" where
  "apply_update ud ord =
     ord\<lparr>symbol := (case u_symbol ud of None \<Rightarrow> symbol ord | Some v \<Rightarrow> v),
         order_type := (case u_type ud of None \<Rightarrow> order_type ord | Some v \<Rightarrow> v),
         quantity := (case u_quantity ud of None \<Rightarrow> quantity ord | Some v \<Rightarrow> v),
         buyPrice := (case u_buyPrice ud of None \<Rightarrow> buyPrice ord | Some v \<Rightarrow> v),
         sellPrice := (case u_sellPrice ud of None \<Rightarrow> sellPrice ord | Some v \<Rightarrow> Some v),
         order_status := (case u_status ud of None \<Rightarrow> order_status ord | Some v \<Rightarrow> v),
         priceRange := (case u_priceRange ud of None \<Rightarrow> priceRange ord | Some v \<Rightarrow> Some v),
         currentPrice := (case u_currentPrice ud of None \<Rightarrow> currentPrice ord | Some v \<Rightarrow> Some v),
         tradeAmount := (case u_tradeAmount ud of None \<Rightarrow> tradeAmount ord | Some v \<Rightarrow> Some v),
         profitLoss := (case u_profitLoss ud of None \<Rightarrow> profitLoss ord | Some v \<Rightarrow> Some v)\<rparr>"

fun findByIdAndUpdate :: "orderhistory list \<Rightarrow> string \<Rightarrow> trade_update \<Rightarrow> orderhistory list" where
  "findByIdAndUpdate [] tradeId ud = []"
| "findByIdAndUpdate (ord # rest) tradeId ud =
     (if order_id ord = tradeId then apply_update ud ord # rest
      else ord # findByIdAndUpdate rest tradeId ud)"

text \<open>
  \<open>updateTrade\<close>. \<open>validate\<close> stands for the schema's update validators
  (\<open>runValidators: true\<close>), which make the write throw (500) before it touches the store.
\<close>

definition updateTrade ::
  "(trade_update \<Rightarrow> bool) \<Rightarrow> orderhistory list \<Rightarrow> string \<Rightarrow> trade_update
     \<Rightarrow> orderhistory list \<times> trade_response" where
  "updateTrade validate orders tradeId updateData =
     (let ranged = (present (u_priceRangeLow updateData) \<or> present (u_priceRangeHigh updateData))
      in if ranged \<and> findById orders tradeId = None
         then (orders, TradeError 404 ''Trade not found'')
         else
           (let ud1 = (case (ranged, findById orders tradeId) of
                         (True, Some existingTrade) \<Rightarrow> price_range_step existingTrade updateData
                       | _ \<Rightarrow> updateData);
                ud2 = profit_loss_step ud1;
                ud3 = trade_amount_step ud2
            in if \<not> validate ud3 then (orders, TradeError 500 ''validation failed'')
               else (case findById orders tradeId of
                       None \<Rightarrow> (orders, TradeError 404 ''Trade not found'')
                     | Some existingTrade \<Rightarrow>
                         (findByIdAndUpdate orders tradeId ud3,
                          TradeOk 200 (apply_update ud3 existingTrade)))))"

text \<open>The update that holds no field.\<close>

definition no_update :: trade_update where
  "no_update = \<lparr>u_symbol = None, u_type = None, u_quantity = None, u_buyPrice = None,
     u_sellPrice = None, u_status = None, u_priceRangeLow = None, u_priceRangeHigh = None,
     u_priceRange = None, u_currentPrice = None, u_tradeAmount = None, u_profitLoss = None\<rparr>"

text \<open>The invariant of an order: its trade amount is quantity times buy price.\<close>

definition tradeAmount_ok :: "orderhistory \<Rightarrow> bool" where
  "tradeAmount_ok ord = (tradeAmount ord = Some (quantity ord * buyPrice ord))"

text \<open>The order of the example ledger after it was closed with a realized profit of 300.\<close>

definition order500_closed :: orderhistory where
  "order500_closed = order500\<lparr>sellPrice := Some 8, profitLoss := Some 300, order_status := CLOSED\<rparr>"

section \<open>KPI trends (getAlluserKpis)\<close>

text \<open>
  \<open>Number.prototype.toFixed(1)\<close>: the sign, then the integer \<open>n\<close> nearest to ten times
  the absolute value (the larger one on a tie), written with one digit after the point; and the
  number a string of that shape reads as (\<open>Math.abs(trend)\<close>, \<open>trend >= 0\<close>).
  Values of \<open>10^21\<close> and above, which \<open>toFixed\<close> prints in exponent notation, are
  outside the model.
\<close>

definition digit_char :: "nat \<Rightarrow> char" where
  "digit_char d = ''0123456789'' ! d"


fun show_nat :: "nat \<Rightarrow> string" where
  "show_nat n = (if n < 10 then [digit_char n] else show_nat (n div 10) @ [digit_char (n mod 10)])"


definition tenths :: "num \<Rightarrow> int" where
  "tenths x = \<lfloor>\<bar>x\<bar> * 10 + 1 / 2\<rfloor>"

definition toFixed1 :: "num \<Rightarrow> string" where
  "toFixed1 x = (if x < 0 then ''-'' else '''') @ show_nat (nat (tenths x div 10)) @ ''.''
                 @ show_nat (nat (tenths x mod 10))"




text \<open>
  A trend figure: the string \<open>toFixed\<close> returns, or the number literal of the fallback
  branch. Dividing by zero gives no finite number; \<open>TrendNonFinite\<close> stands for what
  \<open>toFixed\<close> would print then.
\<close>

datatype trend = TrendFixed string | TrendNumber num | TrendNonFinite

definition js_divide :: "num \<Rightarrow> num \<Rightarrow> num option" where
  "js_divide a b = (if b = 0 then None else Some (a / b))"

text \<open>The conditional all four trend figures are computed by, from the two period totals.\<close>

definition trend :: "num \<Rightarrow> num \<Rightarrow> trend" where
  "trend current previous =
     (if previous > 0
      then (case js_divide (current - previous) previous of
              None \<Rightarrow> TrendNonFinite
            | Some q \<Rightarrow> TrendFixed (toFixed1 (q * 100)))
      else if current > 0 then TrendNumber 100 else TrendNumber 0)"

definition usersTrend :: "nat \<Rightarrow> nat \<Rightarrow> trend" where
  "usersTrend totalUsers previousPeriodUsers = trend (of_nat totalUsers) (of_nat previousPeriodUsers)"

definition tradersTrend :: "nat \<Rightarrow> nat \<Rightarrow> trend" where
  "tradersTrend activeTraders previousActiveTraders =
     trend (of_nat activeTraders) (of_nat previousActiveTraders)"


definition depositTrend :: "num \<Rightarrow> num \<Rightarrow> trend" where
  "depositTrend pendingDepositTotal previousDepositTotal =
     trend pendingDepositTotal previousDepositTotal"


section \<open>Users and login\<close>

text \<open>A document of the \<open>User\<close> collection, with the fields the handlers below touch.\<close>

record user =
  user_id :: string
  email :: string
  name :: string
  password :: string
  generatedPassword :: "string option"
  isVerified :: bool
  role :: string
  lastLogin :: "nat option"

definition findUserById :: "user list \<Rightarrow> string \<Rightarrow> user option" where
  "findUserById users uid = find (\<lambda>u. user_id u = uid) users"

definition findUserByEmail :: "user list \<Rightarrow> string \<Rightarrow> user option" where
  "findUserByEmail users e = find (\<lambda>u. email u = e) users"

text \<open>
  The \<open>pre('save')\<close> hook of the user schema: a password that was modified is replaced by
  its hash. The hash function (bcrypt with a fresh salt) is the parameter \<open>hash\<close>;
  \<open>old\<close> is the document as it was loaded.
\<close>

definition pre_save :: "(string \<Rightarrow> string) \<Rightarrow> user \<Rightarrow> user \<Rightarrow> user" where
  "pre_save hash old new =
     (if password new = password old then new else new\<lparr>password := hash (password new)\<rparr>)"

text \<open>\<open>user.save()\<close>: the stored document with that identifier is replaced.\<close>

fun save_user :: "user list \<Rightarrow> user \<Rightarrow> user list" where
  "save_user [] new = []"
| "save_user (u # us) new = (if user_id u = user_id new then new # us else u # save_user us new)"

record cookie_options =
  httpOnly :: bool
  secure :: bool
  sameSite :: string

datatype response_data =
    LoginData string bool string
  | ApprovalData string bool bool

text \<open>
  An HTTP response: the status code, the message, the cookie it sets, and its \<open>data\<close>
  object: \<open>{role, isVerified, email}\<close> for a login, \<open>{userId, isVerified, emailSent}\<close>
  for an approval or a rejection.
\<close>

record response =
  http_status :: nat
  res_message :: string
  res_cookie :: "(string \<times> cookie_options) option"
  res_data :: "response_data option"

definition respond :: "nat \<Rightarrow> string \<Rightarrow> response" where
  "respond code msg = \<lparr>http_status = code, res_message = msg, res_cookie = None, res_data = None\<rparr>"


text \<open>
  \<open>generateAccessToken\<close>. The token method of the user model is not part of the sources:
  \<open>genToken\<close> stands for it together with the \<open>save\<close> that follows, \<open>None\<close> when
  either throws. Every failure becomes the same \<open>ApiError(500, ...)\<close>.
\<close>

definition generateAccessToken :: "(user \<Rightarrow> string option) \<Rightarrow> user list \<Rightarrow> string \<Rightarrow> string + string" where
  "generateAccessToken genToken users uid =
     (case findUserById users uid of
        None \<Rightarrow> Inl ''Something went wrong while generating the JWT tokens''
      | Some u \<Rightarrow> (case genToken u of
          None \<Rightarrow> Inl ''Something went wrong while generating the JWT tokens''
        | Some accessToken \<Rightarrow> Inr accessToken))"

text \<open>
  \<open>login\<close>. \<open>compare\<close> is \<open>bcrypt.compare\<close>, \<open>isProd\<close> says whether \<open>NODE_ENV\<close>
  is \<open>production\<close>, \<open>now\<close> is the clock.
\<close>

definition login ::
  "(string \<Rightarrow> string \<Rightarrow> bool) \<Rightarrow> (user \<Rightarrow> string option) \<Rightarrow> bool \<Rightarrow> nat \<Rightarrow> user list
     \<Rightarrow> string option \<Rightarrow> string option \<Rightarrow> user list \<times> response" where
  "login compare genToken isProd now users email' password' =
     (case (email', password') of
        (Some e, Some pw) \<Rightarrow>
          if e = [] \<or> pw = [] then (users, respond 400 ''Please provide email and password'')
          else
            (case findUserByEmail users e of
               None \<Rightarrow> (users, respond 401 ''Invalid email'')
             | Some u \<Rightarrow>
                 if \<not> compare (trim pw) (trim (password u))
                 then (users, respond 401 ''Invalid password'')
                 else
                   (case generateAccessToken genToken users (user_id u) of
                      Inl err \<Rightarrow> (users, respond 500 err)
                    | Inr accessToken \<Rightarrow>
                        (let options = \<lparr>httpOnly = True, secure = isProd,
                                         sameSite = (if isProd then ''none'' else ''lax'')\<rparr>
                         in if isVerified u = False
                            then (users, respond 402 ''Your are not Verified'')
                            else
                              (let u' = u\<lparr>lastLogin := Some now\<rparr>
                               in (save_user users u',
                                   \<lparr>http_status = 200, res_message = ''login success'',
                                    res_cookie = Some (accessToken, options),
                                    res_data = Some (LoginData (role u') (isVerified u') (email u'))\<rparr>)))))
      | _ \<Rightarrow> (users, respond 400 ''Please provide email and password''))"

text \<open>Example users: \<open>bcrypt.compare\<close> stands in as a check against a tagged password.\<close>

definition example_compare :: "string \<Rightarrow> string \<Rightarrow> bool" where
  "example_compare pw stored = (stored = ''hash:'' @ pw)"


definition alice :: user where
  "alice = \<lparr>user_id = ''a1'', email = ''alice@example.com'', name = ''Alice'',
             password = ''hash:secret'', generatedPassword = None, isVerified = False,
             role = ''user'', lastLogin = None\<rparr>"

section \<open>Notification gateway (sendEmail, sendEmailWithRetry)\<close>




















text \<open>\<open>Math.min(2000 * Math.pow(2, attempt - 1), 10000)\<close>, in milliseconds.\<close>

definition waitTime :: "nat \<Rightarrow> nat" where
  "waitTime attempt = min (2000 * 2 ^ (attempt - 1)) 10000"











section \<open>Approval workflow (userapprove, userreject)\<close>













section \<open>Settings: round trip and default\<close>

lemma find_append_new:
  "find P xs = None \<Longrightarrow> P y \<Longrightarrow> find P (xs @ [y]) = Some y"
  by (induction xs) (auto split: if_splits)

lemma find_updateFirst:
  "key new = k \<Longrightarrow> find (\<lambda>d. key d = k) ds \<noteq> None \<Longrightarrow>
   find (\<lambda>d. key d = k) (updateFirst ds k new) = Some new"
  by (induction ds) auto

lemma findOne_after_setSetting:
  "findOne (fst (setSetting docs k v descr)) k
     = Some \<lparr>key = trim k, setting_value = v, description = trim descr\<rparr>"
proof (cases "findOne docs k")
  case None
  then show ?thesis
    by (simp add: setSetting_def findOneAndUpdate_upsert_def Let_def findOne_def find_append_new)
next
  case (Some d)
  then have "find (\<lambda>d. key d = trim k) docs \<noteq> None"
    by (simp add: findOne_def)
  then have "find (\<lambda>d. key d = trim k)
               (updateFirst docs (trim k) \<lparr>key = trim k, setting_value = v, description = trim descr\<rparr>)
             = Some \<lparr>key = trim k, setting_value = v, description = trim descr\<rparr>"
    by (intro find_updateFirst) simp_all
  with Some show ?thesis
    by (simp add: setSetting_def findOneAndUpdate_upsert_def Let_def findOne_def)
qed

text \<open>
  C9. A \<open>setSetting(k, v)\<close> followed by \<open>getSetting(k, d)\<close> returns \<open>v\<close>,
  whatever the default \<open>d\<close> and whether or not the collection held a setting for
  \<open>k\<close> before the write.
\<close>

theorem settings_round_trip:
  "getSetting (fst (setSetting docs k v descr)) k d = v"
  by (simp add: getSetting_def findOne_after_setSetting)

text \<open>
  C10. While the collection holds no \<open>showBankDetails\<close> setting, the visibility read
  answers 200 with \<open>showBankDetails = true\<close>.
\<close>

theorem bank_details_visible_by_default:
  "findOne docs ''showBankDetails'' = None \<Longrightarrow>
   statusCode (getBankDetailsVisibility docs) = 200 \<and>
   showBankDetails (getBankDetailsVisibility docs) = JBool True"
  by (simp add: getBankDetailsVisibility_def getSetting_def)

theorem bank_details_visible_by_default_witness:
  "findOne [] ''showBankDetails'' = None \<and>
   statusCode (getBankDetailsVisibility []) = 200 \<and>
   showBankDetails (getBankDetailsVisibility []) = JBool True"
proof -
  have h: "findOne [] ''showBankDetails'' = None"
    by (simp add: findOne_def)
  from bank_details_visible_by_default [OF h] h show ?thesis
    by simp
qed

section \<open>Dashboard balance\<close>

lemma total_or_zero_aggregate:
  "total_or_zero (aggregate_total docs m f) = (\<Sum>d\<in>#filter_mset m (mset docs). f d)"
proof -
  have "(\<Sum>d\<in>#filter_mset m (mset docs). f d) = sum_list (map f (filter m docs))"
    by (metis mset_filter mset_map sum_mset_sum_list)
  then show ?thesis
    by (simp add: aggregate_total_def total_or_zero_def Let_def)
qed

lemma getUserDashboardData_mset:
  "getUserDashboardData txns orders uid =
     (let deposit = (\<Sum>t\<in>#{#t \<in># mset txns. txn_userId t = uid \<and> txn_type t = DEPOSIT \<and> txn_status t = COMPLETED#}. amount t);
          withdrawals = (\<Sum>t\<in>#{#t \<in># mset txns. txn_userId t = uid \<and> txn_type t = WITHDRAWAL \<and> txn_status t = COMPLETED#}. amount t);
          investment = (\<Sum>ord\<in>#{#ord \<in># mset orders. userId ord = uid \<and> order_status ord = OPEN#}. ifNull0 (tradeAmount ord));
          pnl = (\<Sum>ord\<in>#{#ord \<in># mset orders. userId ord = uid \<and> order_status ord = CLOSED#}. ifNull0 (profitLoss ord))
      in \<lparr>accountBalance = deposit - withdrawals - investment + pnl,
          totalDeposit = deposit, totalWithdrawals = withdrawals,
          orderInvestment = investment, realizedProfitLoss = pnl\<rparr>)"
  unfolding getUserDashboardData_def total_or_zero_aggregate by (simp only: Let_def)
text \<open>
  C2. The dashboard's account balance is completed deposits minus completed withdrawals,
  minus the trade amounts of OPEN orders, plus the profit/loss of CLOSED orders (a missing
  one counting 0). It depends on the records only as multisets, so not on their order, and a
  transaction whose status is not COMPLETED changes nothing.
\<close>

theorem dashboard_accountBalance:
  "accountBalance (getUserDashboardData txns orders uid) =
     ((\<Sum>t\<in>#{#t \<in># mset txns. txn_userId t = uid \<and> txn_type t = DEPOSIT \<and> txn_status t = COMPLETED#}. amount t)
      - (\<Sum>t\<in>#{#t \<in># mset txns. txn_userId t = uid \<and> txn_type t = WITHDRAWAL \<and> txn_status t = COMPLETED#}. amount t))
     - (\<Sum>ord\<in>#{#ord \<in># mset orders. userId ord = uid \<and> order_status ord = OPEN#}. ifNull0 (tradeAmount ord))
     + (\<Sum>ord\<in>#{#ord \<in># mset orders. userId ord = uid \<and> order_status ord = CLOSED#}. ifNull0 (profitLoss ord))
   \<and> (\<forall>txns' orders'. mset txns' = mset txns \<and> mset orders' = mset orders \<longrightarrow>
         getUserDashboardData txns' orders' uid = getUserDashboardData txns orders uid)
   \<and> (\<forall>t. txn_status t \<noteq> COMPLETED \<longrightarrow>
         getUserDashboardData (t # txns) orders uid = getUserDashboardData txns orders uid)"
proof (intro conjI allI impI)
  show "accountBalance (getUserDashboardData txns orders uid) =
     ((\<Sum>t\<in>#{#t \<in># mset txns. txn_userId t = uid \<and> txn_type t = DEPOSIT \<and> txn_status t = COMPLETED#}. amount t)
      - (\<Sum>t\<in>#{#t \<in># mset txns. txn_userId t = uid \<and> txn_type t = WITHDRAWAL \<and> txn_status t = COMPLETED#}. amount t))
     - (\<Sum>ord\<in>#{#ord \<in># mset orders. userId ord = uid \<and> order_status ord = OPEN#}. ifNull0 (tradeAmount ord))
     + (\<Sum>ord\<in>#{#ord \<in># mset orders. userId ord = uid \<and> order_status ord = CLOSED#}. ifNull0 (profitLoss ord))"
    by (simp add: getUserDashboardData_mset Let_def)
next
  fix txns' orders'
  assume "mset txns' = mset txns \<and> mset orders' = mset orders"
  then show "getUserDashboardData txns' orders' uid = getUserDashboardData txns orders uid"
    by (simp add: getUserDashboardData_mset)
next
  fix t :: transaction
  assume "txn_status t \<noteq> COMPLETED"
  then show "getUserDashboardData (t # txns) orders uid = getUserDashboardData txns orders uid"
    by (simp add: getUserDashboardData_mset)
qed


theorem dashboard_accountBalance_witness:
  "accountBalance (getUserDashboardData [dep1000, wd200_pending] [order500] ''u1'') = 500
   \<and> mset [wd200_pending, dep1000] = mset [dep1000, wd200_pending]
   \<and> getUserDashboardData [wd200_pending, dep1000] [order500] ''u1''
       = getUserDashboardData [dep1000, wd200_pending] [order500] ''u1''
   \<and> txn_status wd200_pending \<noteq> COMPLETED
   \<and> getUserDashboardData [wd200_pending, dep1000] [order500] ''u1''
       = getUserDashboardData [dep1000] [order500] ''u1''"
proof -
  note closed_form = dashboard_accountBalance
    [of "[dep1000, wd200_pending]" "[order500]" "''u1''", THEN conjunct1]
  note reorder = dashboard_accountBalance
    [of "[dep1000, wd200_pending]" "[order500]" "''u1''", THEN conjunct2, THEN conjunct1,
     rule_format, of "[wd200_pending, dep1000]" "[order500]"]
  note skip = dashboard_accountBalance
    [of "[dep1000]" "[order500]" "''u1''", THEN conjunct2, THEN conjunct2,
     rule_format, of wd200_pending]
  have perm: "mset [wd200_pending, dep1000] = mset [dep1000, wd200_pending]"
    by simp
  have pend: "txn_status wd200_pending \<noteq> COMPLETED"
    by (simp add: wd200_pending_def)
  have a: "accountBalance (getUserDashboardData [dep1000, wd200_pending] [order500] ''u1'') = 500"
    unfolding closed_form by (simp add: dep1000_def wd200_pending_def order500_def ifNull0_def)
  have b: "getUserDashboardData [wd200_pending, dep1000] [order500] ''u1''
       = getUserDashboardData [dep1000, wd200_pending] [order500] ''u1''"
    using reorder perm by simp
  have c: "getUserDashboardData [wd200_pending, dep1000] [order500] ''u1''
       = getUserDashboardData [dep1000] [order500] ''u1''"
    using skip [OF pend] b by simp
  from a perm b pend c show ?thesis by (intro conjI)
qed

section \<open>Admin per-user balance view\<close>

lemma getUserbyId_balanceInfo_mset:
  "getUserbyId_balanceInfo txns orders uid =
     (let deposit = (\<Sum>t\<in>#{#t \<in># mset txns. txn_userId t = uid \<and> txn_type t = DEPOSIT \<and> txn_status t = COMPLETED#}. amount t);
          withdrawals = (\<Sum>t\<in>#{#t \<in># mset txns. txn_userId t = uid \<and> txn_type t = WITHDRAWAL \<and> txn_status t = COMPLETED#}. amount t)
      in \<lparr>accountBalance = deposit - withdrawals,
          totalDeposit = deposit, totalWithdrawals = withdrawals,
          orderInvestment = (\<Sum>ord\<in>#{#ord \<in># mset orders. userId ord = uid#}. ifNull0 (tradeAmount ord)),
          realizedProfitLoss = (\<Sum>ord\<in>#{#ord \<in># mset orders. userId ord = uid#}. ifNull0 (profitLoss ord))\<rparr>)"
proof -
  have cond: "sum_list (map (\<lambda>t. if P t then amount t else 0) (filter Q txns))
                = (\<Sum>t\<in>#{#t \<in># mset txns. Q t \<and> P t#}. amount t)" for P Q
    by (induction txns) auto
  have ord: "sum_list (map f (filter Q orders)) = (\<Sum>x\<in>#{#x \<in># mset orders. Q x#}. f x)"
    for f :: "orderhistory \<Rightarrow> num" and Q
    by (induction orders) auto
  have none_t: "filter Q txns = [] \<Longrightarrow> (\<Sum>t\<in>#{#t \<in># mset txns. Q t \<and> P t#}. amount t) = 0" for P Q
    by (induction txns) (auto split: if_splits)
  have none_o: "filter Q orders = [] \<Longrightarrow> (\<Sum>x\<in>#{#x \<in># mset orders. Q x#}. f x) = 0"
    for f :: "orderhistory \<Rightarrow> num" and Q
    by (induction orders) (auto split: if_splits)
  show ?thesis
    unfolding getUserbyId_balanceInfo_def Let_def cond ord
    by (simp add: total_or_zero_def none_t none_o)
qed

text \<open>
  C3. On the example ledger (a completed deposit of 1000 and one order of trade amount 500)
  the admin view reports the base balance as the account balance and sums investment and
  profit/loss over the orders of every status, where the dashboard reports the composed
  balance: 1000 against 500 while the order is OPEN, 1000 against 1300 (and an investment of
  500 against 0) once it is CLOSED with a profit of 300.
\<close>

theorem admin_view_ignores_order_status:
  "getUserbyId_balanceInfo [dep1000] [order500] ''u1'' =
     \<lparr>accountBalance = 1000, totalDeposit = 1000, totalWithdrawals = 0,
      orderInvestment = 500, realizedProfitLoss = 0\<rparr>
   \<and> getUserDashboardData [dep1000] [order500] ''u1'' =
     \<lparr>accountBalance = 500, totalDeposit = 1000, totalWithdrawals = 0,
      orderInvestment = 500, realizedProfitLoss = 0\<rparr>
   \<and> getUserbyId_balanceInfo [dep1000] [order500_closed] ''u1'' =
     \<lparr>accountBalance = 1000, totalDeposit = 1000, totalWithdrawals = 0,
      orderInvestment = 500, realizedProfitLoss = 300\<rparr>
   \<and> getUserDashboardData [dep1000] [order500_closed] ''u1'' =
     \<lparr>accountBalance = 1300, totalDeposit = 1000, totalWithdrawals = 0,
      orderInvestment = 0, realizedProfitLoss = 300\<rparr>"
  by (simp add: getUserbyId_balanceInfo_def getUserDashboardData_def aggregate_total_def
      total_or_zero_def ifNull0_def Let_def dep1000_def order500_def order500_closed_def)

section \<open>Trades\<close>

lemma createTrade_establishes_tradeAmount:
  assumes "createTrade validate newId orders body = (orders', TradeOk c new)"
  shows "c = 201 \<and> orders' = orders @ [new] \<and> tradeAmount_ok new \<and> order_status new = OPEN
         \<and> map_option mid (priceRange new) = Some (buyPrice new)"
  using assms
  by (auto simp: createTrade_def Let_def tradeAmount_ok_def split: if_splits option.splits)

lemma profit_loss_step_computed:
  "u_profitLoss (profit_loss_step ud) \<noteq> u_profitLoss ud \<Longrightarrow>
   truthy_num (u_sellPrice ud) \<and> truthy_num (u_buyPrice ud) \<and> truthy_num (u_quantity ud)"
  by (auto simp: profit_loss_step_def truthy_num_def Let_def split: option.splits if_splits)

lemma profit_loss_step_value:
  assumes "u_sellPrice ud = Some sell" "u_buyPrice ud = Some buy" "u_quantity ud = Some qty"
    and "sell \<noteq> 0" "buy \<noteq> 0" "qty \<noteq> 0"
  shows "u_profitLoss (profit_loss_step ud) =
           Some (if map_option toUpperCase (u_type ud) = Some ''LONG''
                 then sell * qty - buy * qty else buy * qty - sell * qty)"
  using assms by (simp add: profit_loss_step_def Let_def)

lemma trade_amount_step_both:
  assumes "u_quantity ud = Some qty" "u_buyPrice ud = Some buy" "qty \<noteq> 0" "buy \<noteq> 0"
  shows "tradeAmount_ok (apply_update (trade_amount_step ud) ord)"
  using assms by (simp add: trade_amount_step_def apply_update_def tradeAmount_ok_def)

lemma price_range_step_keeps:
  "u_quantity (price_range_step ex ud) = u_quantity ud"
  "u_buyPrice (price_range_step ex ud) = u_buyPrice ud"
  "u_sellPrice (price_range_step ex ud) = u_sellPrice ud"
  "u_type (price_range_step ex ud) = u_type ud"
  by (simp_all add: price_range_step_def Let_def)

lemma profit_loss_step_keeps:
  "u_quantity (profit_loss_step ud) = u_quantity ud"
  "u_buyPrice (profit_loss_step ud) = u_buyPrice ud"
  by (simp_all add: profit_loss_step_def Let_def split: option.splits)

lemma updateTrade_both_keeps_tradeAmount:
  assumes "updateTrade validate orders tradeId ud = (orders', TradeOk c new)"
    and "u_quantity ud = Some qty" and "u_buyPrice ud = Some buy" and "qty \<noteq> 0" and "buy \<noteq> 0"
  shows "tradeAmount_ok new"
proof -
  define ud1 where "ud1 = (case (present (u_priceRangeLow ud) \<or> present (u_priceRangeHigh ud),
                                 findById orders tradeId) of
                             (True, Some existingTrade) \<Rightarrow> price_range_step existingTrade ud
                           | _ \<Rightarrow> ud)"
  have q1: "u_quantity ud1 = Some qty" and b1: "u_buyPrice ud1 = Some buy"
    using assms(2,3) by (auto simp: ud1_def price_range_step_keeps split: option.splits bool.splits)
  then have "u_quantity (profit_loss_step ud1) = Some qty" "u_buyPrice (profit_loss_step ud1) = Some buy"
    by (simp_all add: profit_loss_step_keeps)
  from trade_amount_step_both [OF this assms(4,5)]
  have ok: "tradeAmount_ok (apply_update (trade_amount_step (profit_loss_step ud1)) ord)" for ord .
  from assms(1) obtain ex where "new = apply_update (trade_amount_step (profit_loss_step ud1)) ex"
    by (auto simp: updateTrade_def Let_def ud1_def split: if_splits option.splits)
  with ok show ?thesis by simp
qed

lemma updateTrade_stores_response:
  assumes "updateTrade validate orders tradeId ud = (orders', TradeOk c new)"
  shows "findById orders' tradeId = Some new"
proof -
  have *: "find (\<lambda>ord. order_id ord = tradeId) os = Some ex \<Longrightarrow>
           find (\<lambda>ord. order_id ord = tradeId) (findByIdAndUpdate os tradeId u) = Some (apply_update u ex)"
    for os ex u
    by (induction os) (auto simp: apply_update_def split: if_splits)
  from assms show ?thesis
    by (auto simp: updateTrade_def Let_def findById_def * split: if_splits option.splits)
qed

text \<open>
  C6. An update that supplies the quantity alone is accepted and written, and leaves the stored
  trade amount at its old value: the order held 100 at 5 with trade amount 500 and holds 200 at
  5 with trade amount 500 afterwards.
\<close>

theorem updateTrade_quantity_alone_keeps_tradeAmount:
  "updateTrade (\<lambda>_. True) [order500] ''o1'' (no_update\<lparr>u_quantity := Some 200\<rparr>)
     = ([order500\<lparr>quantity := 200\<rparr>], TradeOk 200 (order500\<lparr>quantity := 200\<rparr>))
   \<and> tradeAmount_ok order500
   \<and> quantity (order500\<lparr>quantity := 200\<rparr>) * buyPrice (order500\<lparr>quantity := 200\<rparr>) = 1000
   \<and> tradeAmount (order500\<lparr>quantity := 200\<rparr>) = Some 500
   \<and> \<not> tradeAmount_ok (order500\<lparr>quantity := 200\<rparr>)"
  by (simp add: updateTrade_def present_def findById_def profit_loss_step_def trade_amount_step_def
      apply_update_def no_update_def order500_def tradeAmount_ok_def Let_def)

text \<open>
  C7. Closing the LONG example order with an update that supplies the sell price alone leaves
  buy price, sell price and quantity all present on the stored order and its profit/loss
  absent; and an update that supplies sell price 8, buy price 5 and quantity 100 without the
  type gives that LONG order the profit/loss \<open>5 * 100 - 8 * 100 = -300\<close>.
\<close>

theorem updateTrade_sellPrice_alone_leaves_profitLoss_absent:
  "updateTrade (\<lambda>_. True) [order500] ''o1'' (no_update\<lparr>u_sellPrice := Some 8, u_status := Some CLOSED\<rparr>)
     = ([order500\<lparr>sellPrice := Some 8, order_status := CLOSED\<rparr>],
        TradeOk 200 (order500\<lparr>sellPrice := Some 8, order_status := CLOSED\<rparr>))
   \<and> order_type order500 = ''LONG''
   \<and> sellPrice (order500\<lparr>sellPrice := Some 8, order_status := CLOSED\<rparr>) = Some 8
   \<and> profitLoss (order500\<lparr>sellPrice := Some 8, order_status := CLOSED\<rparr>) = None
   \<and> updateTrade (\<lambda>_. True) [order500] ''o1''
        (no_update\<lparr>u_sellPrice := Some 8, u_buyPrice := Some 5, u_quantity := Some 100\<rparr>)
     = ([order500\<lparr>sellPrice := Some 8, profitLoss := Some (- 300)\<rparr>],
        TradeOk 200 (order500\<lparr>sellPrice := Some 8, profitLoss := Some (- 300)\<rparr>))"
  by (simp add: updateTrade_def present_def findById_def profit_loss_step_def trade_amount_step_def
      apply_update_def no_update_def order500_def Let_def)

section \<open>KPI trends\<close>

declare show_nat.simps [simp del]




















section \<open>Login of an unverified user\<close>

text \<open>
  C5, as stated, at the unverified user \<open>alice\<close> and a password that does not match
  her stored hash: the answer is 401, not 402.
\<close>

theorem login_unverified_wrong_password_counterexample:
  "findUserByEmail [alice] ''alice@example.com'' = Some alice
   \<and> isVerified alice = False
   \<and> \<not> example_compare (trim ''wrong'') (trim (password alice))
   \<and> login example_compare (\<lambda>u. Some ''token'') False 7 [alice]
         (Some ''alice@example.com'') (Some ''wrong'')
       = ([alice], respond 401 ''Invalid password'')
   \<and> http_status (snd (login example_compare (\<lambda>u. Some ''token'') False 7 [alice]
         (Some ''alice@example.com'') (Some ''wrong''))) \<noteq> 402"
  by (simp add: login_def findUserByEmail_def alice_def example_compare_def trim_def is_ws_def
      respond_def)

text \<open>
  C5, amended. A login with a non-empty email and password against a user whose
  \<open>isVerified\<close> flag is false is answered 402 when the password matches the stored hash
  and the access token could be generated; a password that does not match is answered 401,
  and a failed token generation 500, before the flag is looked at. The store is unchanged in
  each case.
\<close>

theorem login_unverified:
  assumes "findUserByEmail users e = Some u" and "isVerified u = False"
    and "e \<noteq> []" and "pw \<noteq> []"
  shows "(compare (trim pw) (trim (password u))
            \<and> generateAccessToken genToken users (user_id u) = Inr tok \<longrightarrow>
          login compare genToken isProd now users (Some e) (Some pw)
            = (users, respond 402 ''Your are not Verified''))
       \<and> (compare (trim pw) (trim (password u))
            \<and> generateAccessToken genToken users (user_id u) = Inl err \<longrightarrow>
          login compare genToken isProd now users (Some e) (Some pw) = (users, respond 500 err))
       \<and> (\<not> compare (trim pw) (trim (password u)) \<longrightarrow>
          login compare genToken isProd now users (Some e) (Some pw)
            = (users, respond 401 ''Invalid password''))"
  using assms by (simp add: login_def)

theorem login_unverified_witness:
  "findUserByEmail [alice] ''alice@example.com'' = Some alice
   \<and> isVerified alice = False
   \<and> example_compare (trim '' secret '') (trim (password alice))
   \<and> generateAccessToken (\<lambda>u. Some ''token'') [alice] (user_id alice) = Inr ''token''
   \<and> login example_compare (\<lambda>u. Some ''token'') True 7 [alice]
         (Some ''alice@example.com'') (Some '' secret '')
       = ([alice], respond 402 ''Your are not Verified'')
   \<and> generateAccessToken (\<lambda>u. None) [alice] (user_id alice)
       = Inl ''Something went wrong while generating the JWT tokens''
   \<and> login example_compare (\<lambda>u. None) True 7 [alice]
         (Some ''alice@example.com'') (Some '' secret '')
       = ([alice], respond 500 ''Something went wrong while generating the JWT tokens'')
   \<and> \<not> example_compare (trim ''wrong'') (trim (password alice))
   \<and> login example_compare (\<lambda>u. Some ''token'') True 7 [alice]
         (Some ''alice@example.com'') (Some ''wrong'')
       = ([alice], respond 401 ''Invalid password'')"
proof -
  have found: "findUserByEmail [alice] ''alice@example.com'' = Some alice"
    by (simp add: findUserByEmail_def alice_def)
  have unverified: "isVerified alice = False"
    by (simp add: alice_def)
  have e: "''alice@example.com'' \<noteq> []" and p1: "'' secret '' \<noteq> []" and p2: "''wrong'' \<noteq> []"
    by simp_all
  have right: "example_compare (trim '' secret '') (trim (password alice))"
    by (simp add: example_compare_def trim_def is_ws_def alice_def)
  have wrong: "\<not> example_compare (trim ''wrong'') (trim (password alice))"
    by (simp add: example_compare_def trim_def is_ws_def alice_def)
  have tok: "generateAccessToken (\<lambda>u. Some ''token'') [alice] (user_id alice) = Inr ''token''"
    by (simp add: generateAccessToken_def findUserById_def)
  have notok: "generateAccessToken (\<lambda>u. None) [alice] (user_id alice)
                 = Inl ''Something went wrong while generating the JWT tokens''"
    by (simp add: generateAccessToken_def findUserById_def)
  note a = login_unverified [where compare = example_compare and genToken = "\<lambda>u. Some ''token''"
      and isProd = True and now = 7 and tok = "''token''",
      OF found unverified e p1, THEN conjunct1, rule_format, OF conjI, OF right tok]
  note b = login_unverified [where compare = example_compare and genToken = "\<lambda>u. None"
      and isProd = True and now = 7
      and err = "''Something went wrong while generating the JWT tokens''",
      OF found unverified e p1, THEN conjunct2, THEN conjunct1, rule_format, OF conjI,
      OF right notok]
  note c = login_unverified [where compare = example_compare and genToken = "\<lambda>u. Some ''token''"
      and isProd = True and now = 7,
      OF found unverified e p2, THEN conjunct2, THEN conjunct2, rule_format, OF wrong]
  from found unverified right tok a notok b wrong c show ?thesis
    by (intro conjI)
qed

section \<open>Notification gateway: retry policy\<close>














lemma waitTime_values: "waitTime 1 = 2000" "waitTime 2 = 4000" "waitTime n \<le> 10000"
  by (simp_all add: waitTime_def)






section \<open>Approval workflow: fail-closed\<close>








lemma pre_save_rejected:
  "pre_save hash u (u\<lparr>isVerified := False\<rparr>) = u\<lparr>isVerified := False\<rparr>"
  by (simp add: pre_save_def)







end
